theory Spec2Isabelle
  imports Complex_Main
begin

section \<open>JavaScript primitives used by the route handlers\<close>

text \<open>
  Strings are byte strings; the model covers ASCII text. Numbers that the handlers use as
  integers (page, limit, id, counts) are mathematical integers: a JavaScript number is
  exact on integers up to \<open>2^53\<close> in absolute value, and the model covers that range.
  Prices are reals: decimal literals are read exactly.
\<close>

definition is_digit :: "char \<Rightarrow> bool" where
  "is_digit c = (48 \<le> (of_char c :: nat) \<and> (of_char c :: nat) \<le> 57)"

definition digit_val :: "char \<Rightarrow> nat" where
  "digit_val c = of_char c - 48"

definition is_hex_digit :: "char \<Rightarrow> bool" where
  "is_hex_digit c =
     (let n = (of_char c :: nat)
      in (48 \<le> n \<and> n \<le> 57) \<or> (65 \<le> n \<and> n \<le> 70) \<or> (97 \<le> n \<and> n \<le> 102))"

definition hex_val :: "char \<Rightarrow> nat" where
  "hex_val c =
     (let n = (of_char c :: nat)
      in if n \<le> 57 then n - 48 else if n \<le> 70 then n - 55 else n - 87)"

text \<open>White space of \<open>String.prototype.trim\<close>, \<open>parseInt\<close> and \<open>parseFloat\<close>
  (the ASCII part: tab, line feed, vertical tab, form feed, carriage return, space).\<close>

definition is_ws :: "char \<Rightarrow> bool" where
  "is_ws c = ((of_char c :: nat) \<in> {9, 10, 11, 12, 13, 32})"

definition trim_start :: "string \<Rightarrow> string" where
  "trim_start s = dropWhile is_ws s"


text \<open>The value of a digit string in a radix, most significant digit first.\<close>

definition digits_value :: "nat \<Rightarrow> (char \<Rightarrow> nat) \<Rightarrow> string \<Rightarrow> nat" where
  "digits_value radix dv ds = foldl (\<lambda>acc c. acc * radix + dv c) 0 ds"

text \<open>
  \<open>parseInt(s)\<close> with no radix argument: leading white space is skipped, a sign is read,
  a prefix \<open>0x\<close> or \<open>0X\<close> selects radix 16, and the longest run of digits is the value.
  \<open>None\<close> stands for \<open>NaN\<close> (no digit could be read).
\<close>

definition parseInt :: "string \<Rightarrow> int option" where
  "parseInt s =
     (let t = trim_start s;
          neg = (t \<noteq> [] \<and> hd t = CHR ''-'');
          u = (if t \<noteq> [] \<and> (hd t = CHR ''-'' \<or> hd t = CHR ''+'') then tl t else t);
          hex = (take 2 u = ''0x'' \<or> take 2 u = ''0X'');
          z = (if hex then takeWhile is_hex_digit (drop 2 u) else takeWhile is_digit u);
          v = (if hex then digits_value 16 hex_val z else digits_value 10 digit_val z)
      in if z = [] then None
         else Some (if neg then - int v else int v))"

text \<open>A request parameter is absent (\<open>undefined\<close>) or a string; \<open>parseInt(undefined)\<close>
  reads the string \<open>undefined\<close>.\<close>

definition parseInt_param :: "string option \<Rightarrow> int option" where
  "parseInt_param x = parseInt (case x of None \<Rightarrow> ''undefined'' | Some s \<Rightarrow> s)"

text \<open>\<open>parseInt(x) || d\<close>: \<open>NaN\<close> and \<open>0\<close> are falsy.\<close>

definition int_or :: "int option \<Rightarrow> int \<Rightarrow> int" where
  "int_or v d = (case v of None \<Rightarrow> d | Some n \<Rightarrow> if n = 0 then d else n)"

datatype jsnum = NaN | Fin real | PosInf | NegInf

definition truthy_num :: "jsnum \<Rightarrow> bool" where
  "truthy_num v = (case v of NaN \<Rightarrow> False | Fin r \<Rightarrow> r \<noteq> 0 | _ \<Rightarrow> True)"

text \<open>
  \<open>parseFloat(s)\<close>: leading white space is skipped and the longest prefix that is a decimal
  literal is read: a sign, then \<open>Infinity\<close>, or digits with an optional fraction and an
  optional exponent. An exponent marker without digits is not part of the literal.
\<close>

definition exponent_of :: "string \<Rightarrow> int" where
  "exponent_of r =
     (if r \<noteq> [] \<and> (hd r = CHR ''e'' \<or> hd r = CHR ''E'') then
        (let r1 = tl r;
             eneg = (r1 \<noteq> [] \<and> hd r1 = CHR ''-'');
             r2 = (if r1 \<noteq> [] \<and> (hd r1 = CHR ''-'' \<or> hd r1 = CHR ''+'') then tl r1 else r1);
             ed = takeWhile is_digit r2
         in if ed = [] then 0
            else if eneg then - int (digits_value 10 digit_val ed)
            else int (digits_value 10 digit_val ed))
      else 0)"

definition scale10 :: "real \<Rightarrow> int \<Rightarrow> real" where
  "scale10 m e = (if 0 \<le> e then m * 10 ^ nat e else m / 10 ^ nat (- e))"

definition parseFloat :: "string \<Rightarrow> jsnum" where
  "parseFloat s =
     (let t = trim_start s;
          neg = (t \<noteq> [] \<and> hd t = CHR ''-'');
          u = (if t \<noteq> [] \<and> (hd t = CHR ''-'' \<or> hd t = CHR ''+'') then tl t else t);
          ip = takeWhile is_digit u;
          r1 = dropWhile is_digit u;
          dot = (r1 \<noteq> [] \<and> hd r1 = CHR ''.'');
          fp = (if dot then takeWhile is_digit (tl r1) else []);
          r2 = (if dot then dropWhile is_digit (tl r1) else r1);
          m = real (digits_value 10 digit_val ip)
                + real (digits_value 10 digit_val fp) / 10 ^ length fp;
          v = scale10 m (exponent_of r2)
      in if take 8 u = ''Infinity'' then (if neg then NegInf else PosInf)
         else if ip = [] \<and> fp = [] then NaN
         else Fin (if neg then - v else v))"




text \<open>\<open>Math.ceil\<close> and \<open>Math.round\<close> (halves round towards plus infinity).\<close>

definition Math_ceil :: "real \<Rightarrow> int" where
  "Math_ceil x = \<lceil>x\<rceil>"


section \<open>Case-insensitive matching\<close>

definition to_lower :: "char \<Rightarrow> char" where
  "to_lower c =
     (let n = (of_char c :: nat) in if 65 \<le> n \<and> n \<le> 90 then char_of (n + 32) else c)"

definition lower :: "string \<Rightarrow> string" where
  "lower s = map to_lower s"

fun starts_with :: "string \<Rightarrow> string \<Rightarrow> bool" where
  "starts_with s [] = True"
| "starts_with [] (c # p) = False"
| "starts_with (d # s) (c # p) = (d = c \<and> starts_with s p)"

fun contains :: "string \<Rightarrow> string \<Rightarrow> bool" where
  "contains [] p = (p = [])"
| "contains (d # s) p = (starts_with (d # s) p \<or> contains s p)"

text \<open>The spec's "case-insensitive substring match" of a parameter \<open>p\<close> on a field \<open>s\<close>.\<close>

definition ci_substring :: "string \<Rightarrow> string \<Rightarrow> bool" where
  "ci_substring p s = contains (lower s) (lower p)"

text \<open>
  The handlers hand the caller's text to the store as a pattern:
  \<open>{ $regex: text, $options: 'i' }\<close>. The store's regular-expression engine is a parameter
  of the model: \<open>rx p\<close> is \<open>None\<close> when the store rejects the pattern \<open>p\<close>, and otherwise the
  case-insensitive, unanchored test of \<open>p\<close> on a subject string.
\<close>

type_synonym regex_engine = "string \<Rightarrow> (string \<Rightarrow> bool) option"

text \<open>The characters with a meaning of their own in a pattern.\<close>

definition is_meta :: "char \<Rightarrow> bool" where
  "is_meta c = (c \<in> {CHR 0x5C, CHR ''^'', CHR ''$'', CHR ''.'', CHR ''|'', CHR ''?'', CHR ''*'',
                     CHR ''+'', CHR ''('', CHR '')'', CHR ''['', CHR '']'', CHR ''{'', CHR ''}''})"

definition is_literal :: "string \<Rightarrow> bool" where
  "is_literal p = (\<forall>c \<in> set p. \<not> is_meta c)"

text \<open>What every regular-expression engine does on a pattern without metacharacters.\<close>

definition literal_engine :: "regex_engine \<Rightarrow> bool" where
  "literal_engine rx =
     (\<forall>p. is_literal p \<longrightarrow> (\<exists>m. rx p = Some m \<and> (\<forall>s. m s = ci_substring p s)))"

text \<open>
  An executable engine for a fragment of the pattern language: ordinary characters and the
  wildcard \<open>.\<close> (any character but a line feed). It answers \<open>None\<close> on a pattern with
  any other metacharacter; the examples below stay inside the fragment.
\<close>

fun wild_prefix :: "string \<Rightarrow> string \<Rightarrow> bool" where
  "wild_prefix s [] = True"
| "wild_prefix [] (c # p) = False"
| "wild_prefix (d # s) (c # p) =
     ((if c = CHR ''.'' then d \<noteq> CHR 0x0A else to_lower d = to_lower c) \<and> wild_prefix s p)"

fun wild_search :: "string \<Rightarrow> string \<Rightarrow> bool" where
  "wild_search [] p = (p = [])"
| "wild_search (d # s) p = (wild_prefix (d # s) p \<or> wild_search s p)"

definition dot_engine :: regex_engine where
  "dot_engine p =
     (if \<forall>c \<in> set p. c = CHR ''.'' \<or> \<not> is_meta c then Some (\<lambda>s. wild_search s p) else None)"

section \<open>The catalog and the store\<close>

text \<open>
  Modelled from the spec: the schema \<open>models/Product\<close> is not among the sources; a product
  has the attributes of the spec's data model.
\<close>

record product =
  p_id :: int
  p_name :: string
  p_category :: string
  p_department :: string
  p_brand :: string
  p_retail_price :: real
  p_cost :: real

text \<open>The filter object the list handler builds: one optional pattern per key, the \<open>$or\<close> of
  one pattern over name, category and brand, and the bounds on \<open>retail_price\<close>.\<close>

record price_range =
  gte :: "jsnum option"
  lte :: "jsnum option"

record query =
  q_category :: "string option"
  q_department :: "string option"
  q_brand :: "string option"
  q_or :: "string option"
  q_retail_price :: "price_range option"

definition empty_query :: query where
  "empty_query = \<lparr>q_category = None, q_department = None, q_brand = None, q_or = None,
                   q_retail_price = None\<rparr>"

definition compile_pattern :: "regex_engine \<Rightarrow> string option \<Rightarrow> (string \<Rightarrow> bool) option" where
  "compile_pattern rx x = (case x of None \<Rightarrow> Some (\<lambda>s. True) | Some p \<Rightarrow> rx p)"

definition num_le :: "jsnum \<Rightarrow> jsnum \<Rightarrow> bool" where
  "num_le a b =
     (case (a, b) of
        (NaN, _) \<Rightarrow> False
      | (_, NaN) \<Rightarrow> False
      | (NegInf, _) \<Rightarrow> True
      | (_, PosInf) \<Rightarrow> True
      | (Fin x, Fin y) \<Rightarrow> x \<le> y
      | _ \<Rightarrow> False)"

definition in_range :: "price_range option \<Rightarrow> real \<Rightarrow> bool" where
  "in_range r v =
     (case r of
        None \<Rightarrow> True
      | Some b \<Rightarrow> (case gte b of None \<Rightarrow> True | Some lo \<Rightarrow> num_le lo (Fin v))
                \<and> (case lte b of None \<Rightarrow> True | Some hi \<Rightarrow> num_le (Fin v) hi))"

text \<open>The predicate a filter object denotes; \<open>None\<close> when the store rejects one of its
  patterns.\<close>

definition query_pred :: "regex_engine \<Rightarrow> query \<Rightarrow> (product \<Rightarrow> bool) option" where
  "query_pred rx q =
     (case compile_pattern rx (q_category q) of None \<Rightarrow> None | Some mc \<Rightarrow>
      case compile_pattern rx (q_department q) of None \<Rightarrow> None | Some md \<Rightarrow>
      case compile_pattern rx (q_brand q) of None \<Rightarrow> None | Some mb \<Rightarrow>
      case compile_pattern rx (q_or q) of None \<Rightarrow> None | Some ms \<Rightarrow>
        Some (\<lambda>p. mc (p_category p) \<and> md (p_department p) \<and> mb (p_brand p)
                 \<and> (ms (p_name p) \<or> ms (p_category p) \<or> ms (p_brand p))
                 \<and> in_range (q_retail_price q) (p_retail_price p)))"

text \<open>
  Modelled from the spec: the backing store is an external collaborator, "a queryable
  document collection supporting filter-predicate find with sort/skip/limit,
  count-with-filter, distinct-values-by-field, and a grouping/aggregation operation". A
  store is unreachable or holds the catalog in insertion order; every operation on an
  unreachable store fails.
\<close>

datatype store = Offline | Online "product list"

datatype store_error = StoreError

datatype field_value = Missing | Number real | Text string

definition field_of :: "string \<Rightarrow> product \<Rightarrow> field_value" where
  "field_of f p =
     (if f = ''id'' then Number (of_int (p_id p))
      else if f = ''name'' then Text (p_name p)
      else if f = ''category'' then Text (p_category p)
      else if f = ''department'' then Text (p_department p)
      else if f = ''brand'' then Text (p_brand p)
      else if f = ''retail_price'' then Number (p_retail_price p)
      else if f = ''cost'' then Number (p_cost p)
      else Missing)"

fun str_le :: "string \<Rightarrow> string \<Rightarrow> bool" where
  "str_le [] t = True"
| "str_le (c # s) [] = False"
| "str_le (c # s) (d # t) = ((of_char c :: nat) < of_char d \<or> (c = d \<and> str_le s t))"

fun value_le :: "field_value \<Rightarrow> field_value \<Rightarrow> bool" where
  "value_le Missing b = True"
| "value_le (Number x) Missing = False"
| "value_le (Number x) (Number y) = (x \<le> y)"
| "value_le (Number x) (Text t) = True"
| "value_le (Text s) (Text t) = str_le s t"
| "value_le (Text s) b = False"

text \<open>An ordering directive is a field name and a direction, \<open>1\<close> or \<open>-1\<close>. A field no
  product has gives every product the same key, and the order is left as it is.\<close>

type_synonym sort_spec = "string \<times> int"

definition doc_le :: "sort_spec \<Rightarrow> product \<Rightarrow> product \<Rightarrow> bool" where
  "doc_le srt a b =
     (if snd srt = - 1 then value_le (field_of (fst srt) b) (field_of (fst srt) a)
      else value_le (field_of (fst srt) a) (field_of (fst srt) b))"

fun insert_doc :: "(product \<Rightarrow> product \<Rightarrow> bool) \<Rightarrow> product \<Rightarrow> product list \<Rightarrow> product list" where
  "insert_doc le x [] = [x]"
| "insert_doc le x (y # ys) = (if le x y then x # y # ys else y # insert_doc le x ys)"

definition sort_docs :: "sort_spec option \<Rightarrow> product list \<Rightarrow> product list" where
  "sort_docs srt xs = (case srt of None \<Rightarrow> xs | Some d \<Rightarrow> foldr (insert_doc (doc_le d)) xs [])"

definition skip_docs :: "int \<Rightarrow> product list \<Rightarrow> product list" where
  "skip_docs n xs = drop (nat n) xs"

text \<open>The store reads a limit of \<open>0\<close> as no limit and a negative limit as its absolute
  value; neither handler passes \<open>0\<close>.\<close>

definition limit_docs :: "int \<Rightarrow> product list \<Rightarrow> product list" where
  "limit_docs n xs = (if n = 0 then xs else take (nat \<bar>n\<bar>) xs)"

text \<open>\<open>Product.find(query).sort(sort).skip(skip).limit(limit).lean()\<close>\<close>

definition Product_find ::
  "regex_engine \<Rightarrow> store \<Rightarrow> query \<Rightarrow> sort_spec option \<Rightarrow> int \<Rightarrow> int \<Rightarrow> store_error + product list" where
  "Product_find rx db q srt skip lmt =
     (case db of
        Offline \<Rightarrow> Inl StoreError
      | Online docs \<Rightarrow>
          (case query_pred rx q of
             None \<Rightarrow> Inl StoreError
           | Some P \<Rightarrow> Inr (limit_docs lmt (skip_docs skip (sort_docs srt (filter P docs))))))"

text \<open>\<open>Product.countDocuments(query)\<close>\<close>

definition Product_countDocuments :: "regex_engine \<Rightarrow> store \<Rightarrow> query \<Rightarrow> store_error + int" where
  "Product_countDocuments rx db q =
     (case db of
        Offline \<Rightarrow> Inl StoreError
      | Online docs \<Rightarrow>
          (case query_pred rx q of
             None \<Rightarrow> Inl StoreError
           | Some P \<Rightarrow> Inr (int (length (filter P docs)))))"






section \<open>Requests, responses and the store calls a handler makes\<close>

text \<open>\<open>req.query\<close> of \<open>GET /api/products\<close>: every parameter is absent or a string (a
  parameter given twice, which the framework reads as an array, is outside the model).\<close>

record list_params =
  rq_page :: "string option"
  rq_limit :: "string option"
  rq_category :: "string option"
  rq_department :: "string option"
  rq_brand :: "string option"
  rq_minPrice :: "string option"
  rq_maxPrice :: "string option"
  rq_search :: "string option"
  rq_sortBy :: "string option"
  rq_sortOrder :: "string option"

record pagination =
  currentPage :: int
  totalPages :: int
  totalCount :: int
  limit :: int
  hasNextPage :: bool
  hasPrevPage :: bool
  nextPage :: "int option"
  prevPage :: "int option"

record filters =
  f_category :: "string option"
  f_department :: "string option"
  f_brand :: "string option"
  f_minPrice :: "jsnum option"
  f_maxPrice :: "jsnum option"
  f_search :: "string option"
  f_sortBy :: string
  f_sortOrder :: string

record price_summary =
  range_min :: real
  range_max :: real
  average :: real

record stats =
  totalProducts :: int
  uniqueCategories :: nat
  uniqueDepartments :: nat
  uniqueBrands :: nat
  priceRange :: price_summary
  costRange :: price_summary

text \<open>The JSON envelope: \<open>Failure e\<close> is \<open>{success: false, error: e}\<close>, every other body has
  \<open>success: true\<close>.\<close>

datatype body =
    Failure string
  | ProductList "product list" pagination filters
  | ProductData product
  | SearchResult "product list" nat string
  | Statistics stats

fun success :: "body \<Rightarrow> bool" where
  "success (Failure e) = False"
| "success b = True"

record response =
  status :: nat
  body :: body

datatype store_call =
    Find query "sort_spec option" int int
  | CountDocuments query
  | FindOne "int option"
  | Distinct string
  | Aggregate

section \<open>GET /api/products\<close>

text \<open>The handler of lines 34 to 128 of the server file. A string is truthy when it is
  present and not empty, a number when it is neither \<open>NaN\<close> nor \<open>0\<close>.\<close>

definition truthy_str :: "string option \<Rightarrow> bool" where
  "truthy_str x = (case x of None \<Rightarrow> False | Some s \<Rightarrow> s \<noteq> [])"

definition truthy_price :: "jsnum option \<Rightarrow> bool" where
  "truthy_price x = (case x of None \<Rightarrow> False | Some v \<Rightarrow> truthy_num v)"

text \<open>Lines 37 and 38: \<open>parseInt(req.query.page) || 1\<close> and
  \<open>parseInt(req.query.limit) || 20\<close>\<close>

definition list_page :: "list_params \<Rightarrow> int" where
  "list_page rq = int_or (parseInt_param (rq_page rq)) 1"

definition list_limit :: "list_params \<Rightarrow> int" where
  "list_limit rq = int_or (parseInt_param (rq_limit rq)) 20"

text \<open>Lines 42 and 43: \<open>req.query.minPrice ? parseFloat(req.query.minPrice) : null\<close>\<close>

definition price_param :: "string option \<Rightarrow> jsnum option" where
  "price_param x = (if truthy_str x then map_option parseFloat x else None)"

text \<open>Lines 45 and 46: \<open>req.query.sortBy || 'id'\<close> and
  \<open>req.query.sortOrder === 'desc' ? -1 : 1\<close>; lines 75 and 76 make the sort object of the
  two.\<close>

definition list_sortBy :: "list_params \<Rightarrow> string" where
  "list_sortBy rq = (case rq_sortBy rq of None \<Rightarrow> ''id'' | Some s \<Rightarrow> if s = [] then ''id'' else s)"

definition list_sortOrder :: "list_params \<Rightarrow> int" where
  "list_sortOrder rq = (if rq_sortOrder rq = Some ''desc'' then - 1 else 1)"

definition build_sort :: "list_params \<Rightarrow> sort_spec" where
  "build_sort rq = (list_sortBy rq, list_sortOrder rq)"

text \<open>Line 49: \<open>page < 1 || limit < 1 || limit > 100\<close>\<close>

definition invalid_pagination :: "int \<Rightarrow> int \<Rightarrow> bool" where
  "invalid_pagination pg lmt = (pg < 1 \<or> lmt < 1 \<or> lmt > 100)"

text \<open>Lines 57 to 72: a key is set only for a truthy parameter.\<close>

definition build_query :: "list_params \<Rightarrow> query" where
  "build_query rq =
     (let mn = price_param (rq_minPrice rq); mx = price_param (rq_maxPrice rq)
      in \<lparr>q_category = (if truthy_str (rq_category rq) then rq_category rq else None),
          q_department = (if truthy_str (rq_department rq) then rq_department rq else None),
          q_brand = (if truthy_str (rq_brand rq) then rq_brand rq else None),
          q_or = (if truthy_str (rq_search rq) then rq_search rq else None),
          q_retail_price =
            (if truthy_price mn \<or> truthy_price mx
             then Some \<lparr>gte = (if truthy_price mn then mn else None),
                        lte = (if truthy_price mx then mx else None)\<rparr>
             else None)\<rparr>)"

text \<open>Lines 92 to 108: the pagination object of the response.\<close>

definition page_info :: "int \<Rightarrow> int \<Rightarrow> int \<Rightarrow> pagination" where
  "page_info pg lmt cnt =
     (let tp = Math_ceil (real_of_int cnt / real_of_int lmt);
          hasNext = (pg < tp);
          hasPrev = (pg > 1)
      in \<lparr>currentPage = pg, totalPages = tp, totalCount = cnt, limit = lmt,
          hasNextPage = hasNext, hasPrevPage = hasPrev,
          nextPage = (if hasNext then Some (pg + 1) else None),
          prevPage = (if hasPrev then Some (pg - 1) else None)\<rparr>)"

text \<open>Lines 109 to 118: the parameters as the handler read them.\<close>

definition echo_filters :: "list_params \<Rightarrow> filters" where
  "echo_filters rq =
     \<lparr>f_category = rq_category rq, f_department = rq_department rq, f_brand = rq_brand rq,
      f_minPrice = price_param (rq_minPrice rq), f_maxPrice = price_param (rq_maxPrice rq),
      f_search = rq_search rq, f_sortBy = list_sortBy rq,
      f_sortOrder = (if list_sortOrder rq = 1 then ''asc'' else ''desc'')\<rparr>"

text \<open>The handler returns its response and the store calls it issued, in order. Both
  queries are started before either is awaited (\<open>Promise.all\<close>, lines 82 to 89); a
  failure of either is caught and answered with 500 (lines 121 to 127).\<close>

definition list_products :: "regex_engine \<Rightarrow> store \<Rightarrow> list_params \<Rightarrow> response \<times> store_call list" where
  "list_products rx db rq =
     (let pg = list_page rq; lmt = list_limit rq
      in if invalid_pagination pg lmt then
           (\<lparr>status = 400,
             body = Failure ''Invalid pagination parameters. Page must be >= 1, limit must be between 1-100''\<rparr>,
            [])
         else
           (let q = build_query rq;
                srt = build_sort rq;
                skip = (pg - 1) * lmt;
                calls = [Find q (Some srt) skip lmt, CountDocuments q];
                failed = (\<lparr>status = 500,
                            body = Failure ''Internal server error while fetching products''\<rparr>, calls)
            in case Product_find rx db q (Some srt) skip lmt of
                 Inl e \<Rightarrow> failed
               | Inr products \<Rightarrow>
                   (case Product_countDocuments rx db q of
                      Inl e \<Rightarrow> failed
                    | Inr cnt \<Rightarrow>
                        (\<lparr>status = 200,
                          body = ProductList products (page_info pg lmt cnt) (echo_filters rq)\<rparr>,
                         calls))))"

section \<open>GET /api/products/:id\<close>




section \<open>GET /api/products/search/:term\<close>




section \<open>GET /api/stats\<close>






section \<open>The vocabulary of the claims\<close>

text \<open>
  The definitions of this section follow the words of the claims, not the code: the data
  of a response, a parameter that is absent, not a number or zero, the substring filter,
  a parameter without metacharacters, the price bounds, the number a digit string
  denotes, rounding to two decimal places.
\<close>

definition data_of :: "body \<Rightarrow> product list" where
  "data_of b = (case b of ProductList ps pg fl \<Rightarrow> ps | SearchResult ps n t \<Rightarrow> ps | _ \<Rightarrow> [])"

definition uses_default :: "string option \<Rightarrow> bool" where
  "uses_default x = (x = None \<or> parseInt_param x = None \<or> parseInt_param x = Some 0)"

definition substring_constraint :: "string option \<Rightarrow> string \<Rightarrow> bool" where
  "substring_constraint x field = (case x of None \<Rightarrow> True | Some t \<Rightarrow> t = [] \<or> ci_substring t field)"

definition spec_text_filter :: "list_params \<Rightarrow> product \<Rightarrow> bool" where
  "spec_text_filter rq p =
     (substring_constraint (rq_category rq) (p_category p)
      \<and> substring_constraint (rq_department rq) (p_department p)
      \<and> substring_constraint (rq_brand rq) (p_brand p)
      \<and> (case rq_search rq of
            None \<Rightarrow> True
          | Some t \<Rightarrow> t = [] \<or> ci_substring t (p_name p) \<or> ci_substring t (p_category p)
                       \<or> ci_substring t (p_brand p)))"

definition literal_param :: "string option \<Rightarrow> bool" where
  "literal_param x = (case x of None \<Rightarrow> True | Some t \<Rightarrow> is_literal t)"

definition literal_params :: "list_params \<Rightarrow> bool" where
  "literal_params rq =
     (literal_param (rq_category rq) \<and> literal_param (rq_department rq)
      \<and> literal_param (rq_brand rq) \<and> literal_param (rq_search rq))"







section \<open>A sample catalog and a request without parameters\<close>

definition runner :: product where
  "runner = \<lparr>p_id = 42, p_name = ''Runner'', p_category = ''Shoes'', p_department = ''Men'',
             p_brand = ''Nike'', p_retail_price = 59.5, p_cost = 20\<rparr>"

definition cap :: product where
  "cap = \<lparr>p_id = 7, p_name = ''Cap'', p_category = ''Accessories'', p_department = ''Women'',
          p_brand = ''Acme'', p_retail_price = 10, p_cost = 4.25\<rparr>"

definition no_params :: list_params where
  "no_params = \<lparr>rq_page = None, rq_limit = None, rq_category = None, rq_department = None,
                 rq_brand = None, rq_minPrice = None, rq_maxPrice = None, rq_search = None,
                 rq_sortBy = None, rq_sortOrder = None\<rparr>"

section \<open>Facts about the primitives\<close>

lemma starts_with_iff: "starts_with s p \<longleftrightarrow> (\<exists>v. s = p @ v)"
  by (induction s p rule: starts_with.induct) auto

lemma contains_iff: "contains s p \<longleftrightarrow> (\<exists>u v. s = u @ p @ v)"
proof (induction s)
  case Nil
  then show ?case by auto
next
  case (Cons d s)
  show ?case
  proof
    assume "contains (d # s) p"
    then consider "starts_with (d # s) p" | "contains s p" by auto
    then show "\<exists>u v. d # s = u @ p @ v"
    proof cases
      case 1
      then obtain v where "d # s = p @ v" by (auto simp: starts_with_iff)
      then have "d # s = [] @ p @ v" by simp
      then show ?thesis by blast
    next
      case 2
      then obtain u v where "s = u @ p @ v" using Cons.IH by auto
      then have "d # s = (d # u) @ p @ v" by simp
      then show ?thesis by blast
    qed
  next
    assume "\<exists>u v. d # s = u @ p @ v"
    then obtain u v where e: "d # s = u @ p @ v" by auto
    show "contains (d # s) p"
    proof (cases u)
      case Nil
      with e have "starts_with (d # s) p" by (auto simp: starts_with_iff)
      then show ?thesis by simp
    next
      case (Cons a u')
      with e have "s = u' @ p @ v" by simp
      then have "contains s p" using Cons.IH by blast
      then show ?thesis by simp
    qed
  qed
qed

lemma wild_prefix_literal:
  "is_literal p \<Longrightarrow> wild_prefix s p = starts_with (lower s) (lower p)"
proof (induction s p rule: wild_prefix.induct)
  case (3 d s c p)
  then have "c \<noteq> CHR ''.''" and "is_literal p"
    by (auto simp: is_literal_def is_meta_def)
  with 3 show ?case by (simp add: lower_def)
qed (simp_all add: lower_def)

lemma wild_search_literal:
  "is_literal p \<Longrightarrow> wild_search s p = ci_substring p s"
  by (induction s) (auto simp: ci_substring_def wild_prefix_literal lower_def)

lemma dot_engine_literal: "literal_engine dot_engine"
  unfolding literal_engine_def dot_engine_def
  by (auto simp: wild_search_literal is_literal_def)

lemma length_insert_doc: "length (insert_doc le x xs) = Suc (length xs)"
  by (induction xs) auto

lemma length_sort_docs: "length (sort_docs srt xs) = length xs"
proof (cases srt)
  case None
  then show ?thesis by (simp add: sort_docs_def)
next
  case (Some d)
  have "length (foldr (insert_doc le) xs []) = length xs" for le
    by (induction xs) (auto simp: length_insert_doc)
  with Some show ?thesis by (simp add: sort_docs_def)
qed

lemma set_insert_doc: "set (insert_doc le x xs) = insert x (set xs)"
  by (induction xs) auto

lemma set_sort_docs: "set (sort_docs srt xs) = set xs"
proof (cases srt)
  case None
  then show ?thesis by (simp add: sort_docs_def)
next
  case (Some d)
  have "set (foldr (insert_doc le) xs []) = set xs" for le
    by (induction xs) (auto simp: set_insert_doc)
  with Some show ?thesis by (simp add: sort_docs_def)
qed

lemma set_limit_docs: "set (limit_docs n xs) \<subseteq> set xs"
  by (auto simp: limit_docs_def dest: in_set_takeD)

lemma set_skip_docs: "set (skip_docs n xs) \<subseteq> set xs"
  by (auto simp: skip_docs_def dest: in_set_dropD)

lemma limit_docs_valid: "1 \<le> n \<Longrightarrow> limit_docs n xs = take (nat n) xs"
  by (simp add: limit_docs_def)

lemma ceil_pages:
  fixes c l :: int
  assumes "1 \<le> l"
  shows "c \<le> Math_ceil (real_of_int c / real_of_int l) * l"
    and "(Math_ceil (real_of_int c / real_of_int l) - 1) * l < c"
proof -
  let ?x = "real_of_int c / real_of_int l"
  have pos: "0 < real_of_int l" using assms by simp
  have xl: "?x * real_of_int l = real_of_int c" using pos by simp
  have "?x * real_of_int l \<le> real_of_int \<lceil>?x\<rceil> * real_of_int l"
    by (rule mult_right_mono) (use pos in simp_all)
  then have "real_of_int c \<le> real_of_int (\<lceil>?x\<rceil> * l)"
    unfolding xl by simp
  then show "c \<le> Math_ceil ?x * l"
    unfolding Math_ceil_def by (simp only: of_int_le_iff)
  have "real_of_int \<lceil>?x\<rceil> - 1 < ?x" by linarith
  then have "(real_of_int \<lceil>?x\<rceil> - 1) * real_of_int l < ?x * real_of_int l"
    by (rule mult_strict_right_mono) (rule pos)
  then have "real_of_int ((\<lceil>?x\<rceil> - 1) * l) < real_of_int c"
    unfolding xl by simp
  then show "(Math_ceil ?x - 1) * l < c"
    unfolding Math_ceil_def by (simp only: of_int_less_iff)
qed

lemma beyond_last_page:
  fixes c l pg :: int
  assumes "1 \<le> l" "Math_ceil (real_of_int c / real_of_int l) < pg"
  shows "c \<le> (pg - 1) * l"
proof -
  have "Math_ceil (real_of_int c / real_of_int l) \<le> pg - 1" using assms by simp
  then have "real_of_int c / real_of_int l \<le> real_of_int (pg - 1)"
    unfolding Math_ceil_def by (simp only: ceiling_le_iff)
  then have "real_of_int c \<le> real_of_int (pg - 1) * real_of_int l"
    using assms by (simp add: pos_divide_le_eq)
  then have "real_of_int c \<le> real_of_int ((pg - 1) * l)" by simp
  then show ?thesis by (simp only: of_int_le_iff)
qed




lemma parseInt_undefined: "parseInt_param None = None"
  by code_simp

lemma parseInt_zero: "parseInt ''0'' = Some 0"
  by code_simp







lemma uses_default_int_or: "uses_default x \<Longrightarrow> int_or (parseInt_param x) d = d"
  by (auto simp: uses_default_def int_or_def parseInt_undefined)

lemma query_pred_empty: "query_pred rx empty_query = Some (\<lambda>p. True)"
  by (simp add: query_pred_def empty_query_def compile_pattern_def in_range_def)

section \<open>The list endpoint: validation and pagination\<close>

lemma invalid_pagination_rejected:
  assumes "invalid_pagination (list_page rq) (list_limit rq)"
  shows "list_products rx db rq =
           (\<lparr>status = 400,
             body = Failure ''Invalid pagination parameters. Page must be >= 1, limit must be between 1-100''\<rparr>,
            [])"
  using assms by (simp add: list_products_def)

lemma list_products_success:
  assumes "body (fst (list_products rx db rq)) = ProductList products pg flt"
  shows "\<not> invalid_pagination (list_page rq) (list_limit rq)"
    and "Product_find rx db (build_query rq) (Some (build_sort rq))
           ((list_page rq - 1) * list_limit rq) (list_limit rq) = Inr products"
    and "\<exists>cnt. Product_countDocuments rx db (build_query rq) = Inr cnt
               \<and> pg = page_info (list_page rq) (list_limit rq) cnt"
  using assms
  by (auto simp: list_products_def Let_def split: if_splits sum.splits)

lemma list_products_status:
  "status (fst (list_products rx db rq)) = 400
     \<longleftrightarrow> invalid_pagination (list_page rq) (list_limit rq)"
  by (simp add: list_products_def Let_def split: sum.splits)

lemma list_products_calls:
  "\<not> invalid_pagination (list_page rq) (list_limit rq) \<Longrightarrow>
   snd (list_products rx db rq) =
     [Find (build_query rq) (Some (build_sort rq)) ((list_page rq - 1) * list_limit rq) (list_limit rq),
      CountDocuments (build_query rq)]"
  by (simp add: list_products_def Let_def split: sum.splits)

lemma list_products_ok:
  assumes "\<not> invalid_pagination (list_page rq) (list_limit rq)"
    and "query_pred rx (build_query rq) = Some P"
  shows "status (fst (list_products rx (Online docs) rq)) = 200"
  using assms
  by (simp add: list_products_def Let_def Product_find_def Product_countDocuments_def)

lemma list_products_body:
  "(\<exists>e. body (fst (list_products rx db rq)) = Failure e)
   \<or> (\<exists>ps pg fl. body (fst (list_products rx db rq)) = ProductList ps pg fl)"
  by (simp add: list_products_def Let_def split: sum.splits)


lemma Product_find_subset:
  assumes "Product_find rx db q srt skip lmt = Inr products"
    and "query_pred rx q = Some P"
  shows "\<forall>p \<in> set products. P p"
proof -
  from assms obtain docs where
    "products = limit_docs lmt (skip_docs skip (sort_docs srt (filter P docs)))"
    by (auto simp: Product_find_def split: store.splits)
  then have "set products \<subseteq> set (filter P docs)"
    using set_limit_docs set_skip_docs set_sort_docs by (metis subset_trans)
  then show ?thesis by auto
qed

text \<open>
  C1. The claim: a request whose parameters give \<open>page = 0\<close>, \<open>limit = 0\<close> or
  \<open>limit = 101\<close> is answered with 400 and no store access. The handler replaces a parsed
  \<open>0\<close> by the default before it validates, so \<open>page=0\<close> and \<open>limit=0\<close> are answered
  with 200 after both store calls, whatever the reachable store holds; the handler's own
  message says that the page must be at least 1 and the limit between 1 and 100. A limit
  of 101 is answered with 400 and no store call, as claimed.
\<close>

theorem zero_page_or_limit_is_served:
  "list_page (no_params\<lparr>rq_page := Some ''0''\<rparr>) = 1
   \<and> status (fst (list_products rx (Online docs) (no_params\<lparr>rq_page := Some ''0''\<rparr>))) = 200
   \<and> success (body (fst (list_products rx (Online docs) (no_params\<lparr>rq_page := Some ''0''\<rparr>))))
   \<and> snd (list_products rx (Online docs) (no_params\<lparr>rq_page := Some ''0''\<rparr>))
       = [Find empty_query (Some (''id'', 1)) 0 20, CountDocuments empty_query]
   \<and> list_limit (no_params\<lparr>rq_limit := Some ''0''\<rparr>) = 20
   \<and> status (fst (list_products rx (Online docs) (no_params\<lparr>rq_limit := Some ''0''\<rparr>))) = 200
   \<and> success (body (fst (list_products rx (Online docs) (no_params\<lparr>rq_limit := Some ''0''\<rparr>))))
   \<and> snd (list_products rx (Online docs) (no_params\<lparr>rq_limit := Some ''0''\<rparr>))
       = [Find empty_query (Some (''id'', 1)) 0 20, CountDocuments empty_query]
   \<and> list_products rx db (no_params\<lparr>rq_limit := Some ''101''\<rparr>)
       = (\<lparr>status = 400,
           body = Failure ''Invalid pagination parameters. Page must be >= 1, limit must be between 1-100''\<rparr>,
          [])"
proof -
  let ?a = "no_params\<lparr>rq_page := Some ''0''\<rparr>"
  let ?b = "no_params\<lparr>rq_limit := Some ''0''\<rparr>"
  let ?c = "no_params\<lparr>rq_limit := Some ''101''\<rparr>"
  have pa: "list_page ?a = 1" and la: "list_limit ?a = 20"
    and pb: "list_page ?b = 1" and lb: "list_limit ?b = 20"
    by (simp_all add: list_page_def list_limit_def no_params_def parseInt_param_def
        parseInt_zero parseInt_undefined [unfolded parseInt_param_def, simplified] int_or_def)
  have "parseInt ''101'' = Some 101" by code_simp
  then have lc: "list_limit ?c = 101"
    by (simp add: list_limit_def no_params_def parseInt_param_def int_or_def)
  have qa: "build_query ?a = empty_query" and qb: "build_query ?b = empty_query"
    by (simp_all add: build_query_def no_params_def empty_query_def price_param_def
        truthy_str_def truthy_price_def)
  have sa: "build_sort ?a = (''id'', 1)" and sb: "build_sort ?b = (''id'', 1)"
    by (simp_all add: build_sort_def list_sortBy_def list_sortOrder_def no_params_def)
  have va: "\<not> invalid_pagination (list_page ?a) (list_limit ?a)"
    and vb: "\<not> invalid_pagination (list_page ?b) (list_limit ?b)"
    and vc: "invalid_pagination (list_page ?c) (list_limit ?c)"
    by (simp_all add: pa la pb lb lc invalid_pagination_def)
  have ra: "status (fst (list_products rx (Online docs) ?a)) = 200
            \<and> success (body (fst (list_products rx (Online docs) ?a)))"
    using va unfolding list_products_def Let_def qa
    by (simp add: Product_find_def Product_countDocuments_def query_pred_empty)
  have rb: "status (fst (list_products rx (Online docs) ?b)) = 200
            \<and> success (body (fst (list_products rx (Online docs) ?b)))"
    using vb unfolding list_products_def Let_def qb
    by (simp add: Product_find_def Product_countDocuments_def query_pred_empty)
  have ca: "snd (list_products rx (Online docs) ?a)
       = [Find empty_query (Some (''id'', 1)) 0 20, CountDocuments empty_query]"
    using list_products_calls [OF va, of rx "Online docs"] by (simp add: qa sa pa la)
  have cb: "snd (list_products rx (Online docs) ?b)
       = [Find empty_query (Some (''id'', 1)) 0 20, CountDocuments empty_query]"
    using list_products_calls [OF vb, of rx "Online docs"] by (simp add: qb sb pb lb)
  show ?thesis
    using pa lb ra rb ca cb invalid_pagination_rejected [OF vc, of rx db] by simp
qed

text \<open>
  C2. In every successful response of the list endpoint the page and the limit are valid,
  \<open>totalPages\<close> is the ceiling of \<open>totalCount / limit\<close> (the least number of pages of
  \<open>limit\<close> items that hold \<open>totalCount\<close> items), \<open>hasNextPage\<close> holds iff the page is
  below \<open>totalPages\<close>, \<open>hasPrevPage\<close> iff the page is above 1, and \<open>nextPage\<close> and
  \<open>prevPage\<close> are the neighbouring page when the flag holds and \<open>null\<close> otherwise.
\<close>

theorem pagination_metadata:
  assumes "body (fst (list_products rx db rq)) = ProductList products pg flt"
  shows "1 \<le> list_page rq \<and> 1 \<le> list_limit rq \<and> list_limit rq \<le> 100
       \<and> limit pg = list_limit rq
       \<and> totalPages pg = \<lceil>real_of_int (totalCount pg) / real_of_int (limit pg)\<rceil>
       \<and> totalCount pg \<le> totalPages pg * limit pg
       \<and> (totalPages pg - 1) * limit pg < totalCount pg
       \<and> hasNextPage pg = (list_page rq < totalPages pg)
       \<and> hasPrevPage pg = (list_page rq > 1)
       \<and> nextPage pg = (if hasNextPage pg then Some (list_page rq + 1) else None)
       \<and> prevPage pg = (if hasPrevPage pg then Some (list_page rq - 1) else None)"
proof -
  from list_products_success(1)[OF assms]
  have valid: "1 \<le> list_page rq" "1 \<le> list_limit rq" "list_limit rq \<le> 100"
    by (auto simp: invalid_pagination_def)
  from list_products_success(3)[OF assms]
  obtain cnt where pg: "pg = page_info (list_page rq) (list_limit rq) cnt" by blast
  have tp: "totalPages pg = Math_ceil (real_of_int cnt / real_of_int (list_limit rq))"
    and tc: "totalCount pg = cnt" and lm: "limit pg = list_limit rq"
    by (simp_all add: pg page_info_def Let_def)
  have c1: "totalCount pg \<le> totalPages pg * limit pg"
    unfolding tp tc lm by (rule ceil_pages(1)[OF valid(2)])
  have c2: "(totalPages pg - 1) * limit pg < totalCount pg"
    unfolding tp tc lm by (rule ceil_pages(2)[OF valid(2)])
  have c3: "totalPages pg = \<lceil>real_of_int (totalCount pg) / real_of_int (limit pg)\<rceil>"
    unfolding tp tc lm by (simp add: Math_ceil_def)
  have rest: "hasNextPage pg = (list_page rq < totalPages pg)"
    "hasPrevPage pg = (list_page rq > 1)"
    "nextPage pg = (if hasNextPage pg then Some (list_page rq + 1) else None)"
    "prevPage pg = (if hasPrevPage pg then Some (list_page rq - 1) else None)"
    by (simp_all add: pg page_info_def Let_def)
  show ?thesis using valid lm c1 c2 c3 rest by blast
qed

theorem pagination_metadata_witness:
  "body (fst (list_products dot_engine (Online [runner, cap])
                (no_params\<lparr>rq_page := Some ''2'', rq_limit := Some ''1''\<rparr>)))
     = ProductList [runner]
         \<lparr>currentPage = 2, totalPages = 2, totalCount = 2, limit = 1, hasNextPage = False,
          hasPrevPage = True, nextPage = None, prevPage = Some 1\<rparr>
         \<lparr>f_category = None, f_department = None, f_brand = None, f_minPrice = None,
          f_maxPrice = None, f_search = None, f_sortBy = ''id'', f_sortOrder = ''asc''\<rparr>
   \<and> 1 \<le> list_page (no_params\<lparr>rq_page := Some ''2'', rq_limit := Some ''1''\<rparr>)
   \<and> 1 \<le> list_limit (no_params\<lparr>rq_page := Some ''2'', rq_limit := Some ''1''\<rparr>)
   \<and> list_limit (no_params\<lparr>rq_page := Some ''2'', rq_limit := Some ''1''\<rparr>) \<le> 100"
proof -
  have h: "body (fst (list_products dot_engine (Online [runner, cap])
                (no_params\<lparr>rq_page := Some ''2'', rq_limit := Some ''1''\<rparr>)))
     = ProductList [runner]
         \<lparr>currentPage = 2, totalPages = 2, totalCount = 2, limit = 1, hasNextPage = False,
          hasPrevPage = True, nextPage = None, prevPage = Some 1\<rparr>
         \<lparr>f_category = None, f_department = None, f_brand = None, f_minPrice = None,
          f_maxPrice = None, f_search = None, f_sortBy = ''id'', f_sortOrder = ''asc''\<rparr>"
    by code_simp
  from pagination_metadata [OF h] h show ?thesis by blast
qed

text \<open>
  C3. In every successful response of the list endpoint \<open>currentPage\<close> is the requested
  page, the data is the window \<open>[skip, skip + limit)\<close> of the filtered and sorted catalog
  with \<open>skip = (page - 1) * limit\<close>, so at most \<open>limit\<close> items, \<open>totalCount\<close> is the
  number of products that pass the filter, and a page beyond \<open>totalPages\<close> has no data.
\<close>

theorem page_window:
  assumes "body (fst (list_products rx (Online docs) rq)) = ProductList products pg flt"
  shows "\<exists>P. query_pred rx (build_query rq) = Some P
           \<and> products = take (nat (list_limit rq))
                          (drop (nat ((list_page rq - 1) * list_limit rq))
                             (sort_docs (Some (build_sort rq)) (filter P docs)))
           \<and> currentPage pg = list_page rq
           \<and> int (length products) \<le> list_limit rq
           \<and> totalCount pg = int (length (filter P docs))
           \<and> (totalPages pg < list_page rq \<longrightarrow> products = [])"
proof -
  let ?pg = "list_page rq" and ?lmt = "list_limit rq"
  from list_products_success(1) [OF assms]
  have valid: "1 \<le> ?pg" "1 \<le> ?lmt"
    by (auto simp: invalid_pagination_def)
  from list_products_success(2) [OF assms]
  obtain P where P: "query_pred rx (build_query rq) = Some P"
    and products: "products = limit_docs ?lmt (skip_docs ((?pg - 1) * ?lmt)
                     (sort_docs (Some (build_sort rq)) (filter P docs)))"
    by (auto simp: Product_find_def split: option.splits)
  let ?sorted = "sort_docs (Some (build_sort rq)) (filter P docs)"
  have window: "products = take (nat ?lmt) (drop (nat ((?pg - 1) * ?lmt)) ?sorted)"
    using products valid by (simp add: limit_docs_valid skip_docs_def)
  from list_products_success(3) [OF assms] P
  have pg: "pg = page_info ?pg ?lmt (int (length (filter P docs)))"
    by (auto simp: Product_countDocuments_def)
  have cur: "currentPage pg = ?pg" and cnt: "totalCount pg = int (length (filter P docs))"
    and tp: "totalPages pg = Math_ceil (real_of_int (int (length (filter P docs))) / real_of_int ?lmt)"
    by (simp_all add: pg page_info_def Let_def)
  have len: "int (length products) \<le> ?lmt"
    using valid by (simp add: window)
  have beyond: "products = []" if "totalPages pg < ?pg"
  proof -
    from that have "int (length (filter P docs)) \<le> (?pg - 1) * ?lmt"
      unfolding tp by (rule beyond_last_page [OF valid(2)])
    then have "length ?sorted \<le> nat ((?pg - 1) * ?lmt)"
      by (simp add: length_sort_docs)
    then show ?thesis by (simp add: window)
  qed
  show ?thesis using P window cur len cnt beyond by blast
qed

theorem page_window_witness:
  "body (fst (list_products dot_engine (Online [runner, cap])
                (no_params\<lparr>rq_page := Some ''5'', rq_limit := Some ''1''\<rparr>)))
     = ProductList []
         \<lparr>currentPage = 5, totalPages = 2, totalCount = 2, limit = 1, hasNextPage = False,
          hasPrevPage = True, nextPage = None, prevPage = Some 4\<rparr>
         \<lparr>f_category = None, f_department = None, f_brand = None, f_minPrice = None,
          f_maxPrice = None, f_search = None, f_sortBy = ''id'', f_sortOrder = ''asc''\<rparr>
   \<and> (2::int) < list_page (no_params\<lparr>rq_page := Some ''5'', rq_limit := Some ''1''\<rparr>)
   \<and> (\<exists>P. query_pred dot_engine (build_query (no_params\<lparr>rq_page := Some ''5'', rq_limit := Some ''1''\<rparr>)) = Some P
          \<and> int (length (filter P [runner, cap])) = 2)"
proof -
  let ?rq = "no_params\<lparr>rq_page := Some ''5'', rq_limit := Some ''1''\<rparr>"
  have h: "body (fst (list_products dot_engine (Online [runner, cap]) ?rq))
     = ProductList []
         \<lparr>currentPage = 5, totalPages = 2, totalCount = 2, limit = 1, hasNextPage = False,
          hasPrevPage = True, nextPage = None, prevPage = Some 4\<rparr>
         \<lparr>f_category = None, f_department = None, f_brand = None, f_minPrice = None,
          f_maxPrice = None, f_search = None, f_sortBy = ''id'', f_sortOrder = ''asc''\<rparr>"
    by code_simp
  have lp: "list_page ?rq = 5" by code_simp
  from page_window [OF h] obtain P where
    "query_pred dot_engine (build_query ?rq) = Some P"
    "int (length (filter P [runner, cap])) = 2"
    by auto
  then show ?thesis using h lp by auto
qed

text \<open>
  C10. A \<open>page\<close> parameter that is absent, not a number or parses to 0 gives page 1, and
  such a \<open>limit\<close> gives limit 20. The defaults are in place before the validation: a
  request with a defaulted page is rejected only for its limit, one with a defaulted limit
  only for its page, and one with both is never rejected, reaches the store with skip 0
  and limit 20, and is answered with 200 when the store is reachable and accepts the
  filter.
\<close>

theorem pagination_defaults:
  "(uses_default (rq_page rq) \<longrightarrow> list_page rq = 1)
   \<and> (uses_default (rq_limit rq) \<longrightarrow> list_limit rq = 20)
   \<and> (uses_default (rq_page rq) \<longrightarrow>
        (status (fst (list_products rx db rq)) = 400 \<longleftrightarrow> list_limit rq < 1 \<or> 100 < list_limit rq))
   \<and> (uses_default (rq_limit rq) \<longrightarrow>
        (status (fst (list_products rx db rq)) = 400 \<longleftrightarrow> list_page rq < 1))
   \<and> (uses_default (rq_page rq) \<and> uses_default (rq_limit rq) \<longrightarrow>
        status (fst (list_products rx db rq)) \<noteq> 400
        \<and> snd (list_products rx db rq)
            = [Find (build_query rq) (Some (build_sort rq)) 0 20, CountDocuments (build_query rq)])
   \<and> (uses_default (rq_page rq) \<and> uses_default (rq_limit rq)
        \<and> (\<exists>P. query_pred rx (build_query rq) = Some P) \<longrightarrow>
        status (fst (list_products rx (Online docs) rq)) = 200)"
proof -
  have p: "list_page rq = 1" if "uses_default (rq_page rq)"
    using that by (simp add: list_page_def uses_default_int_or)
  have l: "list_limit rq = 20" if "uses_default (rq_limit rq)"
    using that by (simp add: list_limit_def uses_default_int_or)
  have s1: "status (fst (list_products rx db rq)) = 400 \<longleftrightarrow> list_limit rq < 1 \<or> 100 < list_limit rq"
    if "uses_default (rq_page rq)"
    using p [OF that] by (simp add: list_products_status invalid_pagination_def)
  have s2: "status (fst (list_products rx db rq)) = 400 \<longleftrightarrow> list_page rq < 1"
    if "uses_default (rq_limit rq)"
    using l [OF that] by (simp add: list_products_status invalid_pagination_def)
  have s3: "status (fst (list_products rx db rq)) \<noteq> 400
        \<and> snd (list_products rx db rq)
            = [Find (build_query rq) (Some (build_sort rq)) 0 20, CountDocuments (build_query rq)]"
    if "uses_default (rq_page rq)" "uses_default (rq_limit rq)"
  proof -
    have v: "\<not> invalid_pagination (list_page rq) (list_limit rq)"
      using p [OF that(1)] l [OF that(2)] by (simp add: invalid_pagination_def)
    show ?thesis
      using v list_products_calls [OF v, of rx db] p [OF that(1)] l [OF that(2)]
      by (simp add: list_products_status)
  qed
  have s4: "status (fst (list_products rx (Online docs) rq)) = 200"
    if "uses_default (rq_page rq)" "uses_default (rq_limit rq)"
      "\<exists>P. query_pred rx (build_query rq) = Some P"
  proof -
    have v: "\<not> invalid_pagination (list_page rq) (list_limit rq)"
      using p [OF that(1)] l [OF that(2)] by (simp add: invalid_pagination_def)
    from that(3) obtain P where "query_pred rx (build_query rq) = Some P" by blast
    with v show ?thesis by (rule list_products_ok)
  qed
  show ?thesis using p l s1 s2 s3 s4 by blast
qed

theorem pagination_defaults_witness:
  "uses_default (rq_page (no_params\<lparr>rq_page := Some ''abc'', rq_limit := Some ''0''\<rparr>))
   \<and> uses_default (rq_limit (no_params\<lparr>rq_page := Some ''abc'', rq_limit := Some ''0''\<rparr>))
   \<and> list_page (no_params\<lparr>rq_page := Some ''abc'', rq_limit := Some ''0''\<rparr>) = 1
   \<and> list_limit (no_params\<lparr>rq_page := Some ''abc'', rq_limit := Some ''0''\<rparr>) = 20
   \<and> (\<exists>P. query_pred dot_engine
              (build_query (no_params\<lparr>rq_page := Some ''abc'', rq_limit := Some ''0''\<rparr>)) = Some P)
   \<and> status (fst (list_products dot_engine (Online [runner, cap])
                (no_params\<lparr>rq_page := Some ''abc'', rq_limit := Some ''0''\<rparr>))) = 200"
proof -
  let ?rq = "no_params\<lparr>rq_page := Some ''abc'', rq_limit := Some ''0''\<rparr>"
  have a: "uses_default (rq_page ?rq)" by code_simp
  have b: "uses_default (rq_limit ?rq)" by code_simp
  have "build_query ?rq = empty_query"
    by (simp add: build_query_def no_params_def empty_query_def price_param_def truthy_str_def
        truthy_price_def)
  then have c: "\<exists>P. query_pred dot_engine (build_query ?rq) = Some P"
    by (simp add: query_pred_empty)
  from pagination_defaults [of ?rq dot_engine "Online [runner, cap]" "[runner, cap]"] a b c
  show ?thesis by blast
qed

section \<open>The list endpoint: filter and order\<close>

lemma compile_literal:
  assumes "literal_engine rx" "literal_param x"
  shows "\<exists>m. compile_pattern rx (if truthy_str x then x else None) = Some m
             \<and> (\<forall>s. m s = substring_constraint x s)
             \<and> (truthy_str x \<or> (\<forall>s. m s))"
proof (cases x)
  case None
  then show ?thesis by (simp add: compile_pattern_def truthy_str_def substring_constraint_def)
next
  case (Some t)
  show ?thesis
  proof (cases "t = []")
    case True
    with Some show ?thesis
      by (simp add: compile_pattern_def truthy_str_def substring_constraint_def)
  next
    case False
    from assms Some have "is_literal t" by (simp add: literal_param_def)
    with assms(1) obtain m where "rx t = Some m" "\<forall>s. m s = ci_substring t s"
      unfolding literal_engine_def by blast
    with Some False show ?thesis
      by (simp add: compile_pattern_def truthy_str_def substring_constraint_def)
  qed
qed

text \<open>
  C4, as amended. The handler passes each text parameter to the store as a regular
  expression, so the claim's substring filter is what the store evaluates only for
  parameters without metacharacters. For such a request and any engine that treats a
  literal pattern as a case-insensitive substring test, the store accepts the filter, its
  predicate is the conjunction of the substring constraints of the present, non-empty
  parameters among category, department and brand, of the disjunction over name, category
  and brand for search, and of the price bounds, and every product returned satisfies it.
\<close>

theorem filter_conjunction:
  assumes "literal_engine rx" and "literal_params rq"
  shows "\<exists>P. query_pred rx (build_query rq) = Some P
           \<and> (\<forall>p. P p \<longleftrightarrow> spec_text_filter rq p
                         \<and> in_range (q_retail_price (build_query rq)) (p_retail_price p))
           \<and> (\<forall>p \<in> set (data_of (body (fst (list_products rx db rq)))). P p)"
proof -
  from assms have lit: "literal_param (rq_category rq)" "literal_param (rq_department rq)"
    "literal_param (rq_brand rq)" "literal_param (rq_search rq)"
    by (simp_all add: literal_params_def)
  from compile_literal [OF assms(1) lit(1)] obtain mc where
    mc: "compile_pattern rx (q_category (build_query rq)) = Some mc"
        "\<forall>s. mc s = substring_constraint (rq_category rq) s"
    by (auto simp: build_query_def Let_def)
  from compile_literal [OF assms(1) lit(2)] obtain md where
    md: "compile_pattern rx (q_department (build_query rq)) = Some md"
        "\<forall>s. md s = substring_constraint (rq_department rq) s"
    by (auto simp: build_query_def Let_def)
  from compile_literal [OF assms(1) lit(3)] obtain mb where
    mb: "compile_pattern rx (q_brand (build_query rq)) = Some mb"
        "\<forall>s. mb s = substring_constraint (rq_brand rq) s"
    by (auto simp: build_query_def Let_def)
  from compile_literal [OF assms(1) lit(4)] obtain ms where
    ms: "compile_pattern rx (q_or (build_query rq)) = Some ms"
        "\<forall>s. ms s = substring_constraint (rq_search rq) s"
    by (auto simp: build_query_def Let_def)
  let ?P = "\<lambda>p. mc (p_category p) \<and> md (p_department p) \<and> mb (p_brand p)
                 \<and> (ms (p_name p) \<or> ms (p_category p) \<or> ms (p_brand p))
                 \<and> in_range (q_retail_price (build_query rq)) (p_retail_price p)"
  have P: "query_pred rx (build_query rq) = Some ?P"
    by (simp add: query_pred_def mc(1) md(1) mb(1) ms(1))
  have search: "(ms (p_name p) \<or> ms (p_category p) \<or> ms (p_brand p))
      = (case rq_search rq of
            None \<Rightarrow> True
          | Some t \<Rightarrow> t = [] \<or> ci_substring t (p_name p) \<or> ci_substring t (p_category p)
                       \<or> ci_substring t (p_brand p))" for p
    by (auto simp: ms(2) substring_constraint_def split: option.splits)
  have spec: "?P p \<longleftrightarrow> spec_text_filter rq p
                 \<and> in_range (q_retail_price (build_query rq)) (p_retail_price p)" for p
    unfolding spec_text_filter_def search [symmetric] by (simp add: mc(2) md(2) mb(2))
  have data: "\<forall>p \<in> set (data_of (body (fst (list_products rx db rq)))). ?P p"
  proof -
    consider e where "body (fst (list_products rx db rq)) = Failure e"
      | ps pg fl where "body (fst (list_products rx db rq)) = ProductList ps pg fl"
      using list_products_body [of rx db rq] by blast
    then show ?thesis
    proof cases
      case 1
      then show ?thesis by (simp add: data_of_def)
    next
      case 2
      from Product_find_subset [OF list_products_success(2) [OF 2] P]
      show ?thesis by (simp add: 2 data_of_def)
    qed
  qed
  show ?thesis using P spec data by blast
qed

theorem filter_conjunction_witness:
  "literal_engine dot_engine
   \<and> literal_params (no_params\<lparr>rq_category := Some ''shoes'', rq_search := Some ''NIKE''\<rparr>)
   \<and> data_of (body (fst (list_products dot_engine (Online [runner, cap])
                 (no_params\<lparr>rq_category := Some ''shoes'', rq_search := Some ''NIKE''\<rparr>)))) = [runner]
   \<and> spec_text_filter (no_params\<lparr>rq_category := Some ''shoes'', rq_search := Some ''NIKE''\<rparr>) runner
   \<and> \<not> spec_text_filter (no_params\<lparr>rq_category := Some ''shoes'', rq_search := Some ''NIKE''\<rparr>) cap"
proof -
  let ?rq = "no_params\<lparr>rq_category := Some ''shoes'', rq_search := Some ''NIKE''\<rparr>"
  have lp: "literal_params ?rq" by code_simp
  have d: "data_of (body (fst (list_products dot_engine (Online [runner, cap]) ?rq))) = [runner]"
    by code_simp
  have c: "\<not> spec_text_filter ?rq cap" by code_simp
  from filter_conjunction [OF dot_engine_literal lp, of "Online [runner, cap]"]
  obtain P where "\<forall>p. P p \<longleftrightarrow> spec_text_filter ?rq p
                         \<and> in_range (q_retail_price (build_query ?rq)) (p_retail_price p)"
    and "\<forall>p \<in> set (data_of (body (fst (list_products dot_engine (Online [runner, cap]) ?rq)))). P p"
    by blast
  then have "spec_text_filter ?rq runner" unfolding d by simp
  then show ?thesis using dot_engine_literal lp d c by blast
qed

text \<open>
  C4 as stated fails: with \<open>category=sho.s\<close> the product of category \<open>Shoes\<close> is
  returned, and \<open>sho.s\<close> is not a substring of \<open>Shoes\<close>.
\<close>

theorem filter_conjunction_counterexample:
  "data_of (body (fst (list_products dot_engine (Online [runner, cap])
                        (no_params\<lparr>rq_category := Some ''sho.s''\<rparr>)))) = [runner]
   \<and> \<not> spec_text_filter (no_params\<lparr>rq_category := Some ''sho.s''\<rparr>) runner"
  by code_simp










section \<open>Lookup by id\<close>





section \<open>Search by term\<close>






section \<open>Statistics\<close>







end
